theory Spec2Isabelle
  imports Complex_Main
begin

section \<open>Data model\<close>

text \<open>
  The two framework models of the repository read an \<open>algorithm\<close> object of the trading
  engine. Only the members the two source files touch are modelled:
  \<^item> \<open>algorithm.Securities\<close>, a dictionary from symbol to security. It is iterated by
    \<open>ManageRisk\<close> (so its order matters) and indexed by \<open>Execute\<close>; it is an
    association list of key/value pairs in iteration order.
  \<^item> \<open>algorithm.Transactions.GetOpenOrders(symbol)\<close>, the open orders of one symbol.
  \<^item> \<open>algorithm.MarketOrder(symbol, quantity)\<close>, the order submission. What the engine
    does with a submitted order is not part of the repository, so it is a parameter of
    \<open>Execute\<close>: a function from the algorithm and the order to the algorithm afterwards.
    The call is taken to return; its result, an order ticket, is not used by the source.
  \<^item> the arithmetic of quantities. A quantity or a profit percentage is a number of the
    engine, and every such number is a \<open>real\<close>. The sum and the difference that
    \<open>Execute\<close> computes are those of the operands' type, which may round (binary
    floating point does); that type is not part of the repository, so its addition and
    subtraction are a parameter of \<open>Execute\<close>. Comparisons, negation and the absolute
    value do not round.
\<close>

type_synonym symbol = string

datatype PortfolioTarget = PortfolioTarget (target_Symbol: symbol) (target_Quantity: real)

datatype Order = Order (order_Symbol: symbol) (order_Quantity: real)

record SecurityHolding =
  Quantity :: real
  UnrealizedProfitPercent :: real

record Security =
  Symbol :: symbol
  Invested :: bool
  Holdings :: SecurityHolding

record algorithm =
  Securities :: "(symbol \<times> Security) list"
  OpenOrders :: "Order list"

datatype error = KeyNotFound symbol

type_synonym market_order = "algorithm \<Rightarrow> symbol \<Rightarrow> real \<Rightarrow> algorithm"

record arithmetic =
  arith_add :: "real \<Rightarrow> real \<Rightarrow> real"
  arith_sub :: "real \<Rightarrow> real \<Rightarrow> real"

text \<open>\<open>algorithm.Transactions.GetOpenOrders(symbol)\<close>: the open orders of that symbol.\<close>

definition GetOpenOrders :: "algorithm \<Rightarrow> symbol \<Rightarrow> Order list" where
  "GetOpenOrders a s = filter (\<lambda>x. order_Symbol x = s) (OpenOrders a)"

text \<open>\<open>algorithm.Securities[symbol]\<close>: indexing a dictionary raises on a missing key.\<close>

definition Securities_getitem :: "algorithm \<Rightarrow> symbol \<Rightarrow> error + Security" where
  "Securities_getitem a s =
     (case map_of (Securities a) s of None \<Rightarrow> Inl (KeyNotFound s) | Some sec \<Rightarrow> Inr sec)"

section \<open>ImmediateExecutionModel\<close>

text \<open>
  Lines 32 and 33 of \<open>ImmediateExecutionModel.py\<close>: the open quantity of the target's
  symbol and the \<open>existing\<close> quantity, read from the algorithm as it is when the
  target is processed. Python's \<open>sum\<close> starts from 0 and adds the elements from left
  to right, with the addition of the operands.
\<close>

definition existing :: "arithmetic \<Rightarrow> algorithm \<Rightarrow> symbol \<Rightarrow> error + real" where
  "existing ar a s =
     (let open_quantity = foldl (arith_add ar) 0 (map order_Quantity (GetOpenOrders a s))
      in case Securities_getitem a s of
           Inl e \<Rightarrow> Inl e
         | Inr security \<Rightarrow> Inr (arith_add ar (Quantity (Holdings security)) open_quantity))"

text \<open>
  \<open>Execute\<close>: the loop over the targets. The result is the algorithm after the call,
  the \<open>MarketOrder\<close> calls made (symbol and quantity, in call order), and how the call
  ended: \<open>Inr ()\<close> when the method returns (it returns nothing), \<open>Inl e\<close> when the
  lookup of a security raised; the orders submitted before the exception stay submitted.
\<close>

fun Execute ::
  "arithmetic \<Rightarrow> market_order \<Rightarrow> algorithm \<Rightarrow> PortfolioTarget list
     \<Rightarrow> algorithm \<times> (symbol \<times> real) list \<times> (error + unit)" where
  "Execute ar MarketOrder a [] = (a, [], Inr ())"
| "Execute ar MarketOrder a (target # targets) =
     (case existing ar a (target_Symbol target) of
        Inl e \<Rightarrow> (a, [], Inl e)
      | Inr ex \<Rightarrow>
          (let quantity = arith_sub ar (target_Quantity target) ex
           in if quantity \<noteq> 0
              then (case Execute ar MarketOrder (MarketOrder a (target_Symbol target) quantity) targets of
                      (a', calls, r) \<Rightarrow> (a', (target_Symbol target, quantity) # calls, r))
              else Execute ar MarketOrder a targets))"

text \<open>
  The \<open>MarketOrder\<close> calls \<open>Execute\<close> makes for the entry at index \<open>i\<close> of the
  target list: what the loop does for that entry alone, on the algorithm left by the
  entries before it; nothing when the lookup for an earlier entry raised.
\<close>

definition calls_for_entry ::
  "arithmetic \<Rightarrow> market_order \<Rightarrow> algorithm \<Rightarrow> PortfolioTarget list \<Rightarrow> nat \<Rightarrow> (symbol \<times> real) list" where
  "calls_for_entry ar MarketOrder a targets i =
     (case Execute ar MarketOrder a (take i targets) of
        (a1, calls1, Inl e) \<Rightarrow> []
      | (a1, calls1, Inr u) \<Rightarrow> fst (snd (Execute ar MarketOrder a1 [targets ! i])))"

text \<open>
  Two arithmetics for the parameter. \<open>exact\<close> does not round. \<open>rounded\<close> keeps a
  result of magnitude up to \<open>2^53\<close> and rounds a larger one to the nearest even integer,
  a tie to the multiple of 4; on integer operands whose sum or difference is at most
  \<open>2^54\<close> in magnitude this is what binary floating point with a 53 bit significand
  gives (round to nearest, ties to even).
\<close>

definition exact :: arithmetic where
  "exact = \<lparr>arith_add = (\<lambda>x y. x + y), arith_sub = (\<lambda>x y. x - y)\<rparr>"




text \<open>
  Three engines for the \<open>MarketOrder\<close> parameter, used to evaluate \<open>Execute\<close> on
  concrete inputs: one that keeps a submitted order open (unfilled), one that fills it at
  once into the holding of the security, and one that leaves the algorithm as it was.
\<close>

definition MarketOrder_open :: market_order where
  "MarketOrder_open a s q = a\<lparr>OpenOrders := OpenOrders a @ [Order s q]\<rparr>"



section \<open>MaximumDrawdownPercentPerSecurity\<close>

record MaximumDrawdownPercentPerSecurity =
  maximumDrawdownPercent :: real

definition init :: "real \<Rightarrow> MaximumDrawdownPercentPerSecurity" where
  "init m = \<lparr>maximumDrawdownPercent = - \<bar>m\<bar>\<rparr>"

text \<open>
  \<open>ManageRisk\<close>: the loop over \<open>algorithm.Securities\<close>, with the local variable
  \<open>targets\<close> as the accumulator. \<open>list(filter(...))\<close> builds a new list and
  \<open>append\<close> adds the liquidation target at its end.
\<close>

fun ManageRisk_loop :: "real \<Rightarrow> (symbol \<times> Security) list \<Rightarrow> PortfolioTarget list \<Rightarrow> PortfolioTarget list" where
  "ManageRisk_loop th [] targets = targets"
| "ManageRisk_loop th (kvp # rest) targets =
     (let security = snd kvp
      in if \<not> Invested security then ManageRisk_loop th rest targets
         else (let pnl = UnrealizedProfitPercent (Holdings security)
               in if pnl < th
                  then ManageRisk_loop th rest
                         (filter (\<lambda>x. target_Symbol x \<noteq> Symbol security) targets
                            @ [PortfolioTarget (Symbol security) 0])
                  else ManageRisk_loop th rest targets))"

definition ManageRisk ::
  "MaximumDrawdownPercentPerSecurity \<Rightarrow> algorithm \<Rightarrow> PortfolioTarget list \<Rightarrow> PortfolioTarget list" where
  "ManageRisk self a targets = ManageRisk_loop (maximumDrawdownPercent self) (Securities a) targets"

subsection \<open>ManageRisk on a store of list objects\<close>

text \<open>
  Python lists are mutable objects, and the caller keeps a reference to the list it
  passed. To tell a new list from a mutated one, the same loop is modelled a second time
  on a store of list objects: a reference is an index into the store, \<open>list(...)\<close>
  allocates a new object at the end of the store, \<open>append\<close> changes the object it is
  called on, and the assignment to the local \<open>targets\<close> changes only the reference
  held by the loop. The method calls nothing of the algorithm but reads of
  \<open>Securities\<close>, so neither model has an order log.
\<close>

type_synonym ref = nat

type_synonym store = "PortfolioTarget list list"

definition new_list :: "store \<Rightarrow> PortfolioTarget list \<Rightarrow> store \<times> ref" where
  "new_list st xs = (st @ [xs], length st)"

definition list_append :: "store \<Rightarrow> ref \<Rightarrow> PortfolioTarget \<Rightarrow> store" where
  "list_append st r x = st[r := st ! r @ [x]]"

fun ManageRisk_store_loop :: "real \<Rightarrow> (symbol \<times> Security) list \<Rightarrow> store \<Rightarrow> ref \<Rightarrow> store \<times> ref" where
  "ManageRisk_store_loop th [] st targets = (st, targets)"
| "ManageRisk_store_loop th (kvp # rest) st targets =
     (let security = snd kvp
      in if \<not> Invested security then ManageRisk_store_loop th rest st targets
         else (let pnl = UnrealizedProfitPercent (Holdings security)
               in if pnl < th
                  then (case new_list st (filter (\<lambda>x. target_Symbol x \<noteq> Symbol security) (st ! targets)) of
                          (st1, targets1) \<Rightarrow>
                            ManageRisk_store_loop th rest
                              (list_append st1 targets1 (PortfolioTarget (Symbol security) 0)) targets1)
                  else ManageRisk_store_loop th rest st targets))"

definition ManageRisk_store ::
  "MaximumDrawdownPercentPerSecurity \<Rightarrow> algorithm \<Rightarrow> store \<Rightarrow> ref \<Rightarrow> store \<times> ref" where
  "ManageRisk_store self a st targets =
     ManageRisk_store_loop (maximumDrawdownPercent self) (Securities a) st targets"

subsection \<open>The securities the loop liquidates\<close>

text \<open>
  \<open>breaches\<close> is the conjunction of the two tests of the loop body (lines 37 and 41):
  the security is invested and its unrealized profit percent is strictly below the
  threshold. \<open>liquidated\<close> lists the symbols of the breaching securities in the order
  the loop meets them.
\<close>

definition breaches :: "real \<Rightarrow> Security \<Rightarrow> bool" where
  "breaches th security \<longleftrightarrow> Invested security \<and> UnrealizedProfitPercent (Holdings security) < th"

definition liquidated :: "real \<Rightarrow> (symbol \<times> Security) list \<Rightarrow> symbol list" where
  "liquidated th secs = map (\<lambda>kvp. Symbol (snd kvp)) (filter (\<lambda>kvp. breaches th (snd kvp)) secs)"

section \<open>Concrete inputs\<close>

text \<open>
  \<open>algo_C\<close> with \<open>targets_C\<close>: a threshold of 5 percent is breached by X (-6 percent)
  and V (-20 percent); Y (-4 percent), Z (exactly -5 percent) and U (+10 percent) do not
  breach, W is not invested, Q has no security at all; X has two targets.
  \<open>algo_E\<close>: holdings of 100, 100 and 0 with open orders +20 for B and +5, -2 for E.
  \<open>algo_D\<close>: one security with no holding and no open order.
  \<open>algo_G\<close>: a holding of \<open>2^53\<close> with +1 open.
\<close>

definition algo_C :: algorithm where
  "algo_C = \<lparr>Securities =
       [(''X'', \<lparr>Symbol = ''X'', Invested = True, Holdings = \<lparr>Quantity = 10, UnrealizedProfitPercent = - 0.06\<rparr>\<rparr>),
        (''Y'', \<lparr>Symbol = ''Y'', Invested = True, Holdings = \<lparr>Quantity = 10, UnrealizedProfitPercent = - 0.04\<rparr>\<rparr>),
        (''Z'', \<lparr>Symbol = ''Z'', Invested = True, Holdings = \<lparr>Quantity = 5, UnrealizedProfitPercent = - 0.05\<rparr>\<rparr>),
        (''W'', \<lparr>Symbol = ''W'', Invested = False, Holdings = \<lparr>Quantity = 0, UnrealizedProfitPercent = - 0.5\<rparr>\<rparr>),
        (''V'', \<lparr>Symbol = ''V'', Invested = True, Holdings = \<lparr>Quantity = 7, UnrealizedProfitPercent = - 0.2\<rparr>\<rparr>),
        (''U'', \<lparr>Symbol = ''U'', Invested = True, Holdings = \<lparr>Quantity = 7, UnrealizedProfitPercent = 0.1\<rparr>\<rparr>)],
     OpenOrders = []\<rparr>"

definition targets_C :: "PortfolioTarget list" where
  "targets_C = [PortfolioTarget ''X'' 10, PortfolioTarget ''Y'' 10, PortfolioTarget ''X'' 4,
                PortfolioTarget ''Z'' 2, PortfolioTarget ''W'' 1, PortfolioTarget ''Q'' 8, PortfolioTarget ''U'' 0]"

definition algo_E :: algorithm where
  "algo_E = \<lparr>Securities =
       [(''A'', \<lparr>Symbol = ''A'', Invested = True, Holdings = \<lparr>Quantity = 100, UnrealizedProfitPercent = 0\<rparr>\<rparr>),
        (''B'', \<lparr>Symbol = ''B'', Invested = True, Holdings = \<lparr>Quantity = 100, UnrealizedProfitPercent = 0\<rparr>\<rparr>),
        (''E'', \<lparr>Symbol = ''E'', Invested = False, Holdings = \<lparr>Quantity = 0, UnrealizedProfitPercent = 0\<rparr>\<rparr>)],
     OpenOrders = [Order ''B'' 20, Order ''E'' 5, Order ''E'' (- 2)]\<rparr>"



section \<open>The constructor\<close>

text \<open>
  C4. For every constructor argument the stored threshold is \<open>- |maximumDrawdownPercent|\<close>;
  the constructor is total, and a negative argument gives the same object, hence the same
  \<open>ManageRisk\<close>, as its positive counterpart.
\<close>

theorem init_normalizes:
  "maximumDrawdownPercent (init m) = - \<bar>m\<bar>
   \<and> init (- m) = init m
   \<and> ManageRisk (init (- m)) = ManageRisk (init m)"
  by (simp add: init_def)

theorem init_normalizes_witness:
  "maximumDrawdownPercent (init (- 0.05)) = - 0.05
   \<and> init (- 0.05) = init 0.05"
  using init_normalizes [of "0.05"] by simp

section \<open>What ManageRisk returns\<close>

text \<open>
  The result of the loop in closed form: the input targets whose symbol is not liquidated,
  in their order, followed by one liquidation target per liquidated symbol. A symbol met
  twice by the loop keeps only the target appended last, which is what \<open>remdups\<close>
  keeps.
\<close>

lemma liquidated_Cons:
  "liquidated th (kvp # rest) =
     (if breaches th (snd kvp) then Symbol (snd kvp) # liquidated th rest else liquidated th rest)"
  by (simp add: liquidated_def)

lemma liquidated_Nil: "liquidated th [] = []"
  by (simp add: liquidated_def)

lemma liquidated_iff:
  "s \<in> set (liquidated th secs) \<longleftrightarrow> (\<exists>kvp \<in> set secs. Symbol (snd kvp) = s \<and> breaches th (snd kvp))"
  by (auto simp: liquidated_def)

lemma ManageRisk_loop_char:
  "ManageRisk_loop th secs targets =
     filter (\<lambda>x. target_Symbol x \<notin> set (liquidated th secs)) targets
       @ map (\<lambda>s. PortfolioTarget s 0) (remdups (liquidated th secs))"
proof (induction secs arbitrary: targets)
  case Nil
  show ?case by (simp add: liquidated_Nil)
next
  case (Cons kvp rest)
  show ?case
  proof (cases "breaches th (snd kvp)")
    case False
    then have "ManageRisk_loop th (kvp # rest) targets = ManageRisk_loop th rest targets"
      by (auto simp: breaches_def Let_def)
    with False Cons show ?thesis by (simp add: liquidated_Cons)
  next
    case True
    let ?s = "Symbol (snd kvp)"
    from True have "ManageRisk_loop th (kvp # rest) targets =
        ManageRisk_loop th rest (filter (\<lambda>x. target_Symbol x \<noteq> ?s) targets @ [PortfolioTarget ?s 0])"
      by (auto simp: breaches_def Let_def)
    also have "\<dots> = filter (\<lambda>x. target_Symbol x \<notin> set (liquidated th rest))
                      (filter (\<lambda>x. target_Symbol x \<noteq> ?s) targets @ [PortfolioTarget ?s 0])
                   @ map (\<lambda>s. PortfolioTarget s 0) (remdups (liquidated th rest))"
      by (rule Cons.IH)
    also have "\<dots> = filter (\<lambda>x. target_Symbol x \<notin> set (liquidated th (kvp # rest))) targets
                   @ map (\<lambda>s. PortfolioTarget s 0) (remdups (liquidated th (kvp # rest)))"
      using True by (auto simp: liquidated_Cons intro: filter_cong)
    finally show ?thesis .
  qed
qed

lemma filter_zero_targets:
  "distinct xs \<Longrightarrow> s \<in> set xs \<Longrightarrow>
     filter (\<lambda>x. target_Symbol x = s) (map (\<lambda>s. PortfolioTarget s 0) xs) = [PortfolioTarget s 0]"
  by (induction xs) (auto simp: filter_empty_conv)

lemma filter_zero_targets_none:
  "s \<notin> set xs \<Longrightarrow> filter (\<lambda>x. target_Symbol x = s) (map (\<lambda>s. PortfolioTarget s 0) xs) = []"
  by (auto simp: filter_empty_conv)

lemma filter_symbol_kept:
  "s \<notin> B \<Longrightarrow> filter (\<lambda>x. target_Symbol x \<notin> B \<and> target_Symbol x = s) targets
     = filter (\<lambda>x. target_Symbol x = s) targets"
  by (auto intro: filter_cong)

lemma filter_symbol_removed:
  "s \<in> B \<Longrightarrow> filter (\<lambda>x. target_Symbol x \<notin> B \<and> target_Symbol x = s) targets = []"
  by (auto simp: filter_empty_conv)

lemma ManageRisk_C:
  "ManageRisk (init 0.05) algo_C targets_C =
     [PortfolioTarget ''Y'' 10, PortfolioTarget ''Z'' 2, PortfolioTarget ''W'' 1, PortfolioTarget ''Q'' 8,
      PortfolioTarget ''U'' 0, PortfolioTarget ''X'' 0, PortfolioTarget ''V'' 0]"
  by (simp add: ManageRisk_def init_def algo_C_def targets_C_def)

text \<open>
  C2. A security of the algorithm that is invested and whose unrealized profit percent is
  strictly below \<open>- |maximumDrawdownPercent|\<close> has, in the list \<open>ManageRisk\<close> returns,
  exactly one target: the liquidation target of quantity 0. Whatever targets the input
  had for its symbol (none, one or several) are gone.
\<close>

theorem ManageRisk_liquidates:
  assumes "(k, security) \<in> set (Securities a)"
    and "Invested security"
    and "UnrealizedProfitPercent (Holdings security) < - \<bar>m\<bar>"
  shows "filter (\<lambda>x. target_Symbol x = Symbol security) (ManageRisk (init m) a targets)
           = [PortfolioTarget (Symbol security) 0]"
proof -
  let ?bs = "liquidated (- \<bar>m\<bar>) (Securities a)"
  from assms have "breaches (- \<bar>m\<bar>) security" by (simp add: breaches_def)
  with assms(1) have mem: "Symbol security \<in> set ?bs"
    by (force simp: liquidated_iff)
  then have "Symbol security \<in> set (remdups ?bs)" by simp
  then have "filter (\<lambda>x. target_Symbol x = Symbol security) (map (\<lambda>s. PortfolioTarget s 0) (remdups ?bs))
               = [PortfolioTarget (Symbol security) 0]"
    by (intro filter_zero_targets) simp_all
  with mem show ?thesis
    by (simp add: ManageRisk_def init_def ManageRisk_loop_char filter_symbol_removed)
qed

text \<open>
  At \<open>algo_C\<close>: X is at -6 percent against a threshold of 5 percent, and the input has
  two targets for X (Scenario C of the specification, with a duplicate).
\<close>

theorem ManageRisk_liquidates_witness:
  "(''X'', \<lparr>Symbol = ''X'', Invested = True, Holdings = \<lparr>Quantity = 10, UnrealizedProfitPercent = - 0.06\<rparr>\<rparr>)
      \<in> set (Securities algo_C)
   \<and> (- 0.06 :: real) < - \<bar>0.05\<bar>
   \<and> filter (\<lambda>x. target_Symbol x = ''X'') (ManageRisk (init 0.05) algo_C targets_C) = [PortfolioTarget ''X'' 0]
   \<and> length (filter (\<lambda>x. target_Symbol x = ''X'') targets_C) = 2"
  using ManageRisk_liquidates [of "''X''"
      "\<lparr>Symbol = ''X'', Invested = True, Holdings = \<lparr>Quantity = 10, UnrealizedProfitPercent = - 0.06\<rparr>\<rparr>"
      algo_C "0.05" targets_C]
  by (simp add: algo_C_def targets_C_def)

text \<open>
  C3. A symbol none of whose securities is invested and strictly below the threshold (it
  is not invested, it is at or above the threshold, or the algorithm has no security for
  it) keeps its targets: the returned list has, for that symbol, the targets of the input,
  with their values and in their order.
\<close>

theorem ManageRisk_passes_through:
  assumes "\<forall>kvp \<in> set (Securities a). Symbol (snd kvp) = s \<longrightarrow>
             \<not> Invested (snd kvp) \<or> - \<bar>m\<bar> \<le> UnrealizedProfitPercent (Holdings (snd kvp))"
  shows "filter (\<lambda>x. target_Symbol x = s) (ManageRisk (init m) a targets)
           = filter (\<lambda>x. target_Symbol x = s) targets"
proof -
  let ?bs = "liquidated (- \<bar>m\<bar>) (Securities a)"
  from assms have "s \<notin> set ?bs"
    by (auto simp: liquidated_iff breaches_def)
  then show ?thesis
    by (simp add: ManageRisk_def init_def ManageRisk_loop_char filter_symbol_kept filter_zero_targets_none)
qed

text \<open>
  At \<open>algo_C\<close>: Z is invested and exactly at the threshold of -5 percent; its target stays.
\<close>

theorem ManageRisk_passes_through_witness:
  "filter (\<lambda>x. target_Symbol x = ''Z'') (ManageRisk (init 0.05) algo_C targets_C) = [PortfolioTarget ''Z'' 2]
   \<and> filter (\<lambda>x. target_Symbol x = ''Z'') targets_C = [PortfolioTarget ''Z'' 2]
   \<and> map_of (Securities algo_C) ''Z''
        = Some \<lparr>Symbol = ''Z'', Invested = True, Holdings = \<lparr>Quantity = 5, UnrealizedProfitPercent = - \<bar>0.05\<bar>\<rparr>\<rparr>"
  using ManageRisk_passes_through [of algo_C "''Z''" "0.05" targets_C]
  by (simp add: algo_C_def targets_C_def)

text \<open>
  C6. \<open>ManageRisk\<close> is idempotent: applied to its own result with the same algorithm
  it returns that result again, as the same list (so also up to the order of entries).
\<close>

theorem ManageRisk_idempotent:
  "ManageRisk self a (ManageRisk self a targets) = ManageRisk self a targets"
  unfolding ManageRisk_def
  by (subst (1 2) ManageRisk_loop_char, subst ManageRisk_loop_char) (auto simp: filter_empty_conv)

theorem ManageRisk_idempotent_witness:
  "ManageRisk (init 0.05) algo_C (ManageRisk (init 0.05) algo_C targets_C) =
     [PortfolioTarget ''Y'' 10, PortfolioTarget ''Z'' 2, PortfolioTarget ''W'' 1, PortfolioTarget ''Q'' 8,
      PortfolioTarget ''U'' 0, PortfolioTarget ''X'' 0, PortfolioTarget ''V'' 0]"
  using ManageRisk_idempotent [of "init 0.05" algo_C targets_C] by (simp only: ManageRisk_C)

text \<open>
  C9. The stored threshold is never positive, for any constructor argument. Hence a symbol
  whose securities are at an unrealized profit percent of 0 or more gets no liquidation
  target from \<open>ManageRisk\<close>: the returned list has, for that symbol, the targets of
  the input and no other.
\<close>

theorem threshold_nonpositive:
  "maximumDrawdownPercent (init m) \<le> 0
   \<and> ((\<forall>kvp \<in> set (Securities a). Symbol (snd kvp) = s \<longrightarrow> 0 \<le> UnrealizedProfitPercent (Holdings (snd kvp)))
        \<longrightarrow> filter (\<lambda>x. target_Symbol x = s) (ManageRisk (init m) a targets)
              = filter (\<lambda>x. target_Symbol x = s) targets)"
proof -
  have th: "maximumDrawdownPercent (init m) \<le> 0" by (simp add: init_def)
  have "s \<notin> set (liquidated (- \<bar>m\<bar>) (Securities a))"
    if "\<forall>kvp \<in> set (Securities a). Symbol (snd kvp) = s \<longrightarrow> 0 \<le> UnrealizedProfitPercent (Holdings (snd kvp))"
    using that by (fastforce simp: liquidated_iff breaches_def)
  then show ?thesis using th
    by (auto simp: ManageRisk_def init_def ManageRisk_loop_char filter_symbol_kept filter_zero_targets_none)
qed

text \<open>
  At \<open>algo_C\<close>: U is invested at +10 percent; even with the threshold 0 its only
  target in the result is the one the input had.
\<close>

theorem threshold_nonpositive_witness:
  "maximumDrawdownPercent (init (- 0.05)) \<le> 0
   \<and> filter (\<lambda>x. target_Symbol x = ''U'') (ManageRisk (init 0) algo_C targets_C) = [PortfolioTarget ''U'' 0]
   \<and> PortfolioTarget ''U'' 0 \<in> set targets_C"
  using threshold_nonpositive [of "- 0.05" algo_C "''U''" targets_C]
        threshold_nonpositive [of 0 algo_C "''U''" targets_C]
  by (simp add: algo_C_def targets_C_def)

text \<open>
  C10. With one security per symbol (the dictionary is keyed by symbol), the returned list
  is the surviving input targets in their input order, followed by the liquidation
  targets, one per breaching security in the order of the scan.
\<close>

theorem ManageRisk_order:
  assumes "distinct (map (\<lambda>kvp. Symbol (snd kvp)) (Securities a))"
  shows "ManageRisk self a targets =
           filter (\<lambda>x. target_Symbol x \<notin> set (liquidated (maximumDrawdownPercent self) (Securities a))) targets
             @ map (\<lambda>s. PortfolioTarget s 0) (liquidated (maximumDrawdownPercent self) (Securities a))"
proof -
  from assms have "distinct (liquidated (maximumDrawdownPercent self) (Securities a))"
    unfolding liquidated_def by (rule distinct_map_filter)
  then show ?thesis
    by (simp add: ManageRisk_def ManageRisk_loop_char distinct_remdups_id)
qed

theorem ManageRisk_order_witness:
  "distinct (map (\<lambda>kvp. Symbol (snd kvp)) (Securities algo_C))
   \<and> liquidated (maximumDrawdownPercent (init 0.05)) (Securities algo_C) = [''X'', ''V'']
   \<and> ManageRisk (init 0.05) algo_C targets_C =
       [PortfolioTarget ''Y'' 10, PortfolioTarget ''Z'' 2, PortfolioTarget ''W'' 1, PortfolioTarget ''Q'' 8,
        PortfolioTarget ''U'' 0] @ [PortfolioTarget ''X'' 0, PortfolioTarget ''V'' 0]"
  using ManageRisk_order [of algo_C "init 0.05" targets_C]
  by (simp add: algo_C_def targets_C_def init_def liquidated_def breaches_def)

section \<open>ManageRisk and the caller's list\<close>

lemma ManageRisk_store_loop_inv:
  "targets < length st \<Longrightarrow>
     (case ManageRisk_store_loop th secs st targets of
        (st', r) \<Rightarrow>
          take (length st) st' = st \<and> r < length st'
          \<and> st' ! r = ManageRisk_loop th secs (st ! targets)
          \<and> (if liquidated th secs = [] then st' = st \<and> r = targets else length st \<le> r))"
proof (induction secs arbitrary: st targets)
  case Nil
  then show ?case by (simp add: liquidated_Nil)
next
  case (Cons kvp rest)
  show ?case
  proof (cases "breaches th (snd kvp)")
    case False
    then have "ManageRisk_store_loop th (kvp # rest) st targets = ManageRisk_store_loop th rest st targets"
      and "ManageRisk_loop th (kvp # rest) (st ! targets) = ManageRisk_loop th rest (st ! targets)"
      and "liquidated th (kvp # rest) = liquidated th rest"
      by (auto simp: breaches_def Let_def liquidated_Cons)
    with Cons.IH [OF Cons.prems] show ?thesis by simp
  next
    case True
    let ?s = "Symbol (snd kvp)"
    let ?new = "filter (\<lambda>x. target_Symbol x \<noteq> ?s) (st ! targets) @ [PortfolioTarget ?s 0]"
    let ?st2 = "st @ [?new]"
    from True have step: "ManageRisk_store_loop th (kvp # rest) st targets
        = ManageRisk_store_loop th rest ?st2 (length st)"
      by (auto simp: breaches_def Let_def new_list_def list_append_def)
    from True have pure: "ManageRisk_loop th (kvp # rest) (st ! targets) = ManageRisk_loop th rest ?new"
      by (auto simp: breaches_def Let_def)
    from True have liq: "liquidated th (kvp # rest) \<noteq> []"
      by (simp add: liquidated_Cons)
    have "length st < length ?st2" by simp
    from Cons.IH [OF this]
    obtain st' r where res: "ManageRisk_store_loop th rest ?st2 (length st) = (st', r)"
      and tk: "take (length ?st2) st' = ?st2" and r: "r < length st'"
      and val: "st' ! r = ManageRisk_loop th rest (?st2 ! length st)"
      and fresh: "if liquidated th rest = [] then st' = ?st2 \<and> r = length st else length ?st2 \<le> r"
      by (auto split: prod.splits)
    from tk have "take (length st) (take (length ?st2) st') = take (length st) ?st2" by simp
    then have tk': "take (length st) st' = st" by (simp add: min_def)
    from fresh have "length st \<le> r" by (auto split: if_splits)
    with tk' r val liq show ?thesis
      by (simp add: step pure res del: ManageRisk_store_loop.simps ManageRisk_loop.simps)
  qed
qed

text \<open>
  C7. \<open>ManageRisk\<close> changes nothing but what it returns. Every list object that existed
  before the call, the caller's list among them, holds the same elements afterwards; the
  returned reference holds the list computed by \<open>ManageRisk\<close>; when a security is
  liquidated the returned reference is a new object, and when none is, the store is
  unchanged and the caller's own reference is returned.
\<close>

theorem ManageRisk_store_fresh:
  assumes "targets < length st"
  shows "case ManageRisk_store self a st targets of
           (st', r) \<Rightarrow>
             take (length st) st' = st \<and> st' ! targets = st ! targets
             \<and> r < length st' \<and> st' ! r = ManageRisk self a (st ! targets)
             \<and> (if liquidated (maximumDrawdownPercent self) (Securities a) = []
                 then st' = st \<and> r = targets else length st \<le> r)"
proof -
  obtain st' r where res: "ManageRisk_store self a st targets = (st', r)" by (cases "ManageRisk_store self a st targets")
  with ManageRisk_store_loop_inv [OF assms, of "maximumDrawdownPercent self" "Securities a"]
  have inv: "take (length st) st' = st" "r < length st'" "st' ! r = ManageRisk self a (st ! targets)"
    "if liquidated (maximumDrawdownPercent self) (Securities a) = []
       then st' = st \<and> r = targets else length st \<le> r"
    by (simp_all add: ManageRisk_store_def ManageRisk_def)
  from inv(1) assms have "st' ! targets = st ! targets"
    by (metis nth_take)
  with inv res show ?thesis by simp
qed

text \<open>
  At \<open>algo_C\<close>, with the caller's list at reference 0: the two liquidations allocate
  two lists, the second is returned, and reference 0 still holds \<open>targets_C\<close>.
\<close>

theorem ManageRisk_store_fresh_witness:
  "ManageRisk_store (init 0.05) algo_C [targets_C] 0 =
     ([targets_C,
       [PortfolioTarget ''Y'' 10, PortfolioTarget ''Z'' 2, PortfolioTarget ''W'' 1, PortfolioTarget ''Q'' 8,
        PortfolioTarget ''U'' 0, PortfolioTarget ''X'' 0],
       [PortfolioTarget ''Y'' 10, PortfolioTarget ''Z'' 2, PortfolioTarget ''W'' 1, PortfolioTarget ''Q'' 8,
        PortfolioTarget ''U'' 0, PortfolioTarget ''X'' 0, PortfolioTarget ''V'' 0]], 2)
   \<and> liquidated (maximumDrawdownPercent (init 0.05)) (Securities algo_C) = [''X'', ''V'']"
  using ManageRisk_store_fresh [of 0 "[targets_C]" "init 0.05" algo_C]
  by (simp add: ManageRisk_store_def ManageRisk_def init_def algo_C_def targets_C_def liquidated_def
        breaches_def new_list_def list_append_def)

section \<open>What Execute submits\<close>


lemma Execute_append:
  "Execute ar MO a (xs @ ys) =
     (case Execute ar MO a xs of
        (a1, calls1, Inl e) \<Rightarrow> (a1, calls1, Inl e)
      | (a1, calls1, Inr u) \<Rightarrow>
          (case Execute ar MO a1 ys of (a2, calls2, r) \<Rightarrow> (a2, calls1 @ calls2, r)))"
proof (induction xs arbitrary: a)
  case Nil
  show ?case by (simp split: prod.splits)
next
  case (Cons t ts)
  show ?case
  proof (cases "existing ar a (target_Symbol t)")
    case (Inl e)
    then show ?thesis by simp
  next
    case (Inr ex)
    show ?thesis
    proof (cases "arith_sub ar (target_Quantity t) ex = 0")
      case True
      with Inr Cons.IH [of a] show ?thesis by simp
    next
      case False
      with Inr Cons.IH [of "MO a (target_Symbol t) (arith_sub ar (target_Quantity t) ex)"] show ?thesis
        by (simp split: prod.splits sum.splits)
    qed
  qed
qed


lemma Execute_single:
  "Execute ar MO a [t] =
     (case existing ar a (target_Symbol t) of
        Inl e \<Rightarrow> (a, [], Inl e)
      | Inr ex \<Rightarrow>
          (if arith_sub ar (target_Quantity t) ex \<noteq> 0
           then (MO a (target_Symbol t) (arith_sub ar (target_Quantity t) ex),
                 [(target_Symbol t, arith_sub ar (target_Quantity t) ex)], Inr ())
           else (a, [], Inr ())))"
  by (simp add: Let_def split: sum.splits)


lemma existing_error:
  "existing ar a s = Inl e \<Longrightarrow> e = KeyNotFound s"
  by (auto simp: existing_def Securities_getitem_def split: option.splits)




subsection \<open>The order of the calls\<close>

lemma calls_for_entry_earlier:
  "i < length ts \<Longrightarrow> calls_for_entry ar MO a (ts @ [t]) i = calls_for_entry ar MO a ts i"
  by (simp add: calls_for_entry_def nth_append split: prod.splits sum.splits)

lemma calls_for_entry_last:
  "calls_for_entry ar MO a (ts @ [t]) (length ts) =
     (case Execute ar MO a ts of
        (a1, calls1, Inl e) \<Rightarrow> []
      | (a1, calls1, Inr u) \<Rightarrow> fst (snd (Execute ar MO a1 [t])))"
  by (simp add: calls_for_entry_def split: prod.splits sum.splits)

lemma Execute_calls_concat:
  "fst (snd (Execute ar MO a targets))
     = concat (map (calls_for_entry ar MO a targets) [0..<length targets])"
proof (induction targets rule: rev_induct)
  case Nil
  show ?case by simp
next
  case (snoc t ts)
  have earlier: "map (calls_for_entry ar MO a (ts @ [t])) [0..<length ts]
                   = map (calls_for_entry ar MO a ts) [0..<length ts]"
    by (rule map_cong) (simp_all add: calls_for_entry_earlier)
  have "fst (snd (Execute ar MO a (ts @ [t])))
          = fst (snd (Execute ar MO a ts)) @ calls_for_entry ar MO a (ts @ [t]) (length ts)"
    by (simp add: Execute_append [of ar MO a ts] calls_for_entry_last del: Execute.simps
          split: prod.splits sum.splits)
  also have "\<dots> = concat (map (calls_for_entry ar MO a (ts @ [t])) [0..<length ts])
                   @ calls_for_entry ar MO a (ts @ [t]) (length ts)"
    by (simp only: snoc.IH earlier)
  also have "\<dots> = concat (map (calls_for_entry ar MO a (ts @ [t])) [0..<length (ts @ [t])])"
    by simp
  finally show ?case .
qed

lemma Execute_single_calls:
  "fst (snd (Execute ar MO a [t])) = []
   \<or> (\<exists>q. q \<noteq> 0 \<and> fst (snd (Execute ar MO a [t])) = [(target_Symbol t, q)])"
  by (simp add: Execute_single del: Execute.simps split: sum.splits)

lemma Execute_result:
  "snd (snd (Execute ar MO a targets)) = Inr ()
   \<or> (\<exists>t \<in> set targets. snd (snd (Execute ar MO a targets)) = Inl (KeyNotFound (target_Symbol t)))"
proof (induction targets arbitrary: a)
  case Nil
  show ?case by simp
next
  case (Cons t ts)
  show ?case
  proof (cases "existing ar a (target_Symbol t)")
    case (Inl e)
    with existing_error [OF Inl] show ?thesis by simp
  next
    case (Inr ex)
    let ?q = "arith_sub ar (target_Quantity t) ex"
    let ?a = "if ?q \<noteq> 0 then MO a (target_Symbol t) ?q else a"
    from Inr have "snd (snd (Execute ar MO a (t # ts))) = snd (snd (Execute ar MO ?a ts))"
      by (simp add: Let_def split: prod.splits)
    with Cons.IH [of ?a] show ?thesis by auto
  qed
qed

text \<open>
  C8. \<open>Execute\<close> returns nothing (its normal result is \<open>Inr ()\<close>, and the only
  exception is the failed lookup of a target's security), and its \<open>MarketOrder\<close> calls
  follow the target list: the calls are the calls made for the entry at index 0, then
  those made for the entry at index 1, and so on to the end of the list; an entry has at
  most one call, for its own symbol. So each call belongs to one entry, and of two calls
  the earlier one belongs to the earlier entry. In the same way, for every split of the
  list into earlier and later entries, the calls for the earlier entries come first and
  the later entries are processed on the algorithm the earlier ones left.
\<close>

theorem Execute_calls_in_target_order:
  "fst (snd (Execute ar MO a targets))
     = concat (map (calls_for_entry ar MO a targets) [0..<length targets])
   \<and> (\<forall>i < length targets.
         calls_for_entry ar MO a targets i = []
         \<or> (\<exists>q. q \<noteq> 0 \<and> calls_for_entry ar MO a targets i = [(target_Symbol (targets ! i), q)]))
   \<and> (\<forall>xs ys. targets = xs @ ys \<longrightarrow>
         Execute ar MO a targets =
           (case Execute ar MO a xs of
              (a1, calls1, Inl e) \<Rightarrow> (a1, calls1, Inl e)
            | (a1, calls1, Inr u) \<Rightarrow>
                (case Execute ar MO a1 ys of (a2, calls2, r) \<Rightarrow> (a2, calls1 @ calls2, r))))
   \<and> (snd (snd (Execute ar MO a targets)) = Inr ()
      \<or> (\<exists>t \<in> set targets. snd (snd (Execute ar MO a targets)) = Inl (KeyNotFound (target_Symbol t))))"
proof -
  have entry: "calls_for_entry ar MO a targets i = []
        \<or> (\<exists>q. q \<noteq> 0 \<and> calls_for_entry ar MO a targets i = [(target_Symbol (targets ! i), q)])" for i
  proof (cases "Execute ar MO a (take i targets)")
    case (fields a1 calls1 r)
    show ?thesis
    proof (cases r)
      case (Inl e)
      with fields show ?thesis by (simp add: calls_for_entry_def)
    next
      case (Inr u)
      with fields have "calls_for_entry ar MO a targets i = fst (snd (Execute ar MO a1 [targets ! i]))"
        by (simp add: calls_for_entry_def)
      with Execute_single_calls [of ar MO a1 "targets ! i"] show ?thesis by simp
    qed
  qed
  have split: "\<forall>xs ys. targets = xs @ ys \<longrightarrow>
         Execute ar MO a targets =
           (case Execute ar MO a xs of
              (a1, calls1, Inl e) \<Rightarrow> (a1, calls1, Inl e)
            | (a1, calls1, Inr u) \<Rightarrow>
                (case Execute ar MO a1 ys of (a2, calls2, r) \<Rightarrow> (a2, calls1 @ calls2, r)))"
    by (intro allI impI) (simp only: Execute_append)
  from entry split Execute_calls_concat [of ar MO a targets] Execute_result [of ar MO a targets]
  show ?thesis by blast
qed

text \<open>
  At \<open>algo_E\<close>: of the four entries the first and the last make a call, the two in
  between make none, and the call for B is computed with the order for A already open.
\<close>

theorem Execute_calls_in_target_order_witness:
  "Execute exact MarketOrder_open algo_E
        [PortfolioTarget ''A'' 150, PortfolioTarget ''B'' 120, PortfolioTarget ''E'' 3, PortfolioTarget ''B'' 90]
       = (MarketOrder_open (MarketOrder_open algo_E ''A'' 50) ''B'' (- 30), [(''A'', 50), (''B'', - 30)], Inr ())
   \<and> map (calls_for_entry exact MarketOrder_open algo_E
             [PortfolioTarget ''A'' 150, PortfolioTarget ''B'' 120, PortfolioTarget ''E'' 3, PortfolioTarget ''B'' 90])
          [0, 1, 2, 3]
       = [[(''A'', 50)], [], [], [(''B'', - 30)]]"
  using Execute_calls_in_target_order [of exact MarketOrder_open algo_E
          "[PortfolioTarget ''A'' 150, PortfolioTarget ''B'' 120, PortfolioTarget ''E'' 3, PortfolioTarget ''B'' 90]"]
  by (simp add: calls_for_entry_def algo_E_def existing_def Securities_getitem_def GetOpenOrders_def
        MarketOrder_open_def exact_def upt_rec)

subsection \<open>A symbol targeted twice\<close>




end
